theory Spec2Isabelle
  imports Main
begin

section \<open>The sidebar provider of Sapling (src/sapling/src/SidebarProvider.ts)\<close>

text \<open>
  The class \<^verbatim>\<open>SidebarProvider\<close> keeps two mutable fields, \<^verbatim>\<open>_view\<close> and \<^verbatim>\<open>parser\<close>,
  both of which may be \<^verbatim>\<open>undefined\<close>. Its handlers run to completion one at a time. Each
  handler is modelled as a function from the provider before the call to an outcome: the
  provider after the call, the effects it had on the host in order, and the exception that
  ended it, if one did. A read of a property of \<^verbatim>\<open>undefined\<close> is a \<^verbatim>\<open>TypeError\<close> in
  JavaScript; everything the handler did before that point stays done, which is why the
  outcome carries the state and the effects next to the exception.
\<close>

subsection \<open>Host objects\<close>

text \<open>A webview view is an object of the host; the provider and the closures hold references
  to it. \<^verbatim>\<open>visible\<close> is read from the object at the moment a handler runs.\<close>

type_synonym view_ref = nat

record webview_view =
  view_id :: view_ref
  visible :: bool

record text_document =
  fileName :: string

record text_editor =
  document :: text_document

text \<open>What the handlers read from the \<^verbatim>\<open>vscode\<close> API when they run:
  \<^verbatim>\<open>workspace.getConfiguration('sapling').view\<close>, \<^verbatim>\<open>window.activeTextEditor\<close> (which may be
  \<^verbatim>\<open>undefined\<close>) and \<^verbatim>\<open>workspace.openTextDocument\<close> (whose promise may reject, here
  \<open>None\<close>).\<close>

record 's host =
  sapling_view :: 's
  activeTextEditor :: "text_editor option"
  openTextDocument :: "string \<Rightarrow> text_document option"

subsection \<open>The parser\<close>

text \<open>
  Modelled from the spec: the class \<^verbatim>\<open>SaplingParser\<close> (imported from \<^verbatim>\<open>./parser\<close>) is not
  part of the sources. The provider uses its constructor, the methods \<^verbatim>\<open>parse\<close>,
  \<^verbatim>\<open>updateTree\<close>, \<^verbatim>\<open>getTree\<close> and \<^verbatim>\<open>toggleNode\<close>, and the field \<^verbatim>\<open>tree\<close> with its
  \<^verbatim>\<open>fileName\<close>. They are taken as parameters, with the signatures of the spec's section 6:
  \<open>'p\<close> is the state of a parser object and \<open>'t\<close> a tree. A method that mutates the parser in
  place returns the parser afterwards. The field \<^verbatim>\<open>tree\<close> may be unset. The methods are
  taken to return: the provider catches no exception, and what a parser that throws leaves
  behind is the parser's business.
\<close>

record ('p, 't) SaplingParser =
  construct :: "string \<Rightarrow> 'p"
  parse :: "'p \<Rightarrow> 'p \<times> 't"
  updateTree :: "'p \<Rightarrow> string \<Rightarrow> 'p \<times> 't"
  getTree :: "'p \<Rightarrow> 't"
  toggleNode :: "'p \<Rightarrow> string \<Rightarrow> bool \<Rightarrow> 'p"
  tree :: "'p \<Rightarrow> 't option"
  tree_fileName :: "'t \<Rightarrow> string"

subsection \<open>Messages\<close>

text \<open>Outbound messages, by their \<^verbatim>\<open>type\<close> string: \<^verbatim>\<open>settings-data\<close>, \<^verbatim>\<open>current-tab\<close>,
  \<^verbatim>\<open>parsed-data\<close>, \<^verbatim>\<open>saved-file\<close>.\<close>

datatype ('t, 's) message =
  SettingsData 's
| CurrentTab string
| ParsedData 't
| SavedFile string

text \<open>Inbound messages, by their \<^verbatim>\<open>type\<close> string; the argument is \<^verbatim>\<open>data.value\<close>, \<open>None\<close>
  when it is \<^verbatim>\<open>undefined\<close>. \<open>OtherType\<close> is any type the switch has no case for.\<close>

datatype data =
  OnFile "string option"
| OnViewFile "string option"
| OnSaplingVisible
| OnSettingsAcquire
| OnNodeToggle "(string \<times> bool) option"
| OnBoldCheck
| OtherType

text \<open>What a handler does to the host: post a message to a webview, or open and show a
  document.\<close>

datatype ('t, 's) effect =
  PostMessage view_ref "('t, 's) message"
| ShowTextDocument text_document

datatype error =
  UndefinedParser
| UndefinedView
| UndefinedActiveTextEditor
| UndefinedValue
| UndefinedTree
| OpenTextDocumentRejected

subsection \<open>The provider and the outcome of a handler\<close>

text \<open>The fields \<^verbatim>\<open>_view\<close> and \<^verbatim>\<open>parser\<close>. (\<^verbatim>\<open>_doc\<close> is declared and never used;
  \<^verbatim>\<open>_extensionUri\<close> is read-only and used for the HTML only.)\<close>

record 'p provider =
  view :: "view_ref option"
  parser :: "'p option"

record ('p, 't, 's) outcome =
  after :: "'p provider"
  sent :: "('t, 's) effect list"
  raised :: "error option"

definition returns :: "'p provider \<Rightarrow> ('t, 's) effect list \<Rightarrow> ('p, 't, 's) outcome" where
  "returns this es = \<lparr>after = this, sent = es, raised = None\<rparr>"

definition throws :: "'p provider \<Rightarrow> ('t, 's) effect list \<Rightarrow> error \<Rightarrow> ('p, 't, 's) outcome" where
  "throws this es e = \<lparr>after = this, sent = es, raised = Some e\<rparr>"

text \<open>A provider just constructed: both fields are \<^verbatim>\<open>undefined\<close>.\<close>

definition new_provider :: "'p provider" where
  "new_provider = \<lparr>view = None, parser = None\<rparr>"

subsection \<open>The listeners registered by \<^verbatim>\<open>resolveWebviewView\<close>\<close>

text \<open>Each listener closes over \<^verbatim>\<open>webviewView\<close>, the argument of the call that registered
  it, and over \<^verbatim>\<open>this\<close>.\<close>

definition onDidChangeConfiguration ::
  "'s host \<Rightarrow> webview_view \<Rightarrow> 'p provider \<Rightarrow> ('p, 't, 's) outcome" where
  "onDidChangeConfiguration H webviewView this =
     returns this [PostMessage (view_id webviewView) (SettingsData (sapling_view H))]"

definition onDidChangeActiveTextEditor ::
  "webview_view \<Rightarrow> text_editor option \<Rightarrow> 'p provider \<Rightarrow> ('p, 't, 's) outcome" where
  "onDidChangeActiveTextEditor webviewView e this =
     (case e of
        None \<Rightarrow> returns this []
      | Some ed \<Rightarrow>
          returns this [PostMessage (view_id webviewView) (CurrentTab (fileName (document ed)))])"

definition onDidSaveTextDocument ::
  "('p, 't) SaplingParser \<Rightarrow> webview_view \<Rightarrow> text_document \<Rightarrow> 'p provider
     \<Rightarrow> ('p, 't, 's) outcome" where
  "onDidSaveTextDocument P webviewView doc this =
     (case parser this of
        None \<Rightarrow> returns this []
      | Some p \<Rightarrow>
          (case updateTree P p (fileName doc) of
             (p', parsed) \<Rightarrow>
               returns (this\<lparr>parser := Some p'\<rparr>)
                 (if visible webviewView
                  then [PostMessage (view_id webviewView) (ParsedData parsed)]
                  else [])))"

text \<open>The message switch. \<^verbatim>\<open>!data.value\<close> holds of \<^verbatim>\<open>undefined\<close> and of the empty
  string. In \<^verbatim>\<open>this.parser.toggleNode(data.value.id, data.value.expanded)\<close> the method is
  looked up on \<^verbatim>\<open>this.parser\<close> before the arguments are evaluated. The handler is
  \<^verbatim>\<open>async\<close>, so an exception is a rejected promise. Only the cases \<^verbatim>\<open>onViewFile\<close> and
  \<^verbatim>\<open>onSettingsAcquire\<close> contain an \<^verbatim>\<open>await\<close>, and they write no field of the provider, so
  each case is one step.\<close>

fun onDidReceiveMessage ::
  "('p, 't) SaplingParser \<Rightarrow> 's host \<Rightarrow> webview_view \<Rightarrow> data \<Rightarrow> 'p provider
     \<Rightarrow> ('p, 't, 's) outcome" where
  "onDidReceiveMessage P H webviewView (OnFile None) this = returns this []"
| "onDidReceiveMessage P H webviewView (OnFile (Some v)) this =
     (if v = [] then returns this []
      else
        (case parse P (construct P v) of
           (p, parsed) \<Rightarrow>
             returns (this\<lparr>parser := Some p\<rparr>)
               [PostMessage (view_id webviewView) (ParsedData parsed)]))"
| "onDidReceiveMessage P H webviewView (OnViewFile None) this = returns this []"
| "onDidReceiveMessage P H webviewView (OnViewFile (Some v)) this =
     (if v = [] then returns this []
      else
        (case openTextDocument H v of
           None \<Rightarrow> throws this [] OpenTextDocumentRejected
         | Some doc \<Rightarrow> returns this [ShowTextDocument doc]))"
| "onDidReceiveMessage P H webviewView OnSaplingVisible this =
     (case parser this of
        None \<Rightarrow> returns this []
      | Some p \<Rightarrow>
          (let parsed = getTree P p;
               first = [PostMessage (view_id webviewView) (ParsedData parsed)]
           in case tree P p of
                None \<Rightarrow> throws this first UndefinedTree
              | Some t \<Rightarrow>
                  returns this
                    (first @ [PostMessage (view_id webviewView) (SavedFile (tree_fileName P t))])))"
| "onDidReceiveMessage P H webviewView OnSettingsAcquire this =
     returns this [PostMessage (view_id webviewView) (SettingsData (sapling_view H))]"
| "onDidReceiveMessage P H webviewView (OnNodeToggle value) this =
     (case parser this of
        None \<Rightarrow> throws this [] UndefinedParser
      | Some p \<Rightarrow>
          (case value of
             None \<Rightarrow> throws this [] UndefinedValue
           | Some (nid, expanded) \<Rightarrow>
               returns (this\<lparr>parser := Some (toggleNode P p nid expanded)\<rparr>) []))"
| "onDidReceiveMessage P H webviewView OnBoldCheck this =
     (case activeTextEditor H of
        None \<Rightarrow> throws this [] UndefinedActiveTextEditor
      | Some ed \<Rightarrow>
          (case view this of
             None \<Rightarrow> throws this [] UndefinedView
           | Some v \<Rightarrow> returns this [PostMessage v (CurrentTab (fileName (document ed)))]))"
| "onDidReceiveMessage P H webviewView OtherType this = returns this []"

text \<open>\<^verbatim>\<open>onDidChangeVisibility\<close> and \<^verbatim>\<open>onDidDispose\<close> have empty bodies.\<close>

definition onDidChangeVisibility :: "'p provider \<Rightarrow> ('p, 't, 's) outcome" where
  "onDidChangeVisibility this = returns this []"

definition onDidDispose :: "'p provider \<Rightarrow> ('p, 't, 's) outcome" where
  "onDidDispose this = returns this []"

subsection \<open>The public methods\<close>

definition resolveWebviewView :: "webview_view \<Rightarrow> 'p provider \<Rightarrow> ('p, 't, 's) outcome" where
  "resolveWebviewView webviewView this =
     returns (this\<lparr>view := Some (view_id webviewView)\<rparr>) []"

definition statusButtonClicked ::
  "('p, 't) SaplingParser \<Rightarrow> 's host \<Rightarrow> 'p provider \<Rightarrow> ('p, 't, 's) outcome" where
  "statusButtonClicked P H this =
     (case activeTextEditor H of
        None \<Rightarrow> throws this [] UndefinedActiveTextEditor
      | Some ed \<Rightarrow>
          (let name = fileName (document ed) in
           if name \<noteq> [] then
             (case parse P (construct P name) of
                (p, _) \<Rightarrow>
                  (let this' = this\<lparr>parser := Some p\<rparr>;
                       parsed = getTree P p
                   in case view this' of
                        None \<Rightarrow> throws this' [] UndefinedView
                      | Some v \<Rightarrow>
                          (case tree P p of
                             None \<Rightarrow> throws this' [PostMessage v (ParsedData parsed)] UndefinedTree
                           | Some t \<Rightarrow>
                               returns this'
                                 [PostMessage v (ParsedData parsed),
                                  PostMessage v (SavedFile (tree_fileName P t))])))
           else returns this []))"

definition revive :: "webview_view \<Rightarrow> 'p provider \<Rightarrow> ('p, 't, 's) outcome" where
  "revive panel this = returns (this\<lparr>view := Some (view_id panel)\<rparr>) []"

subsection \<open>Every operation of the controller\<close>

text \<open>A call of a public method, or a host event delivered to the listener that a call of
  \<^verbatim>\<open>resolveWebviewView\<close> registered for the given webview view.\<close>

datatype operation =
  ResolveWebviewView webview_view
| Revive webview_view
| StatusButtonClicked
| ConfigurationChanged webview_view
| ActiveTextEditorChanged webview_view "text_editor option"
| TextDocumentSaved webview_view text_document
| MessageReceived webview_view data
| VisibilityChanged webview_view
| Disposed webview_view

fun step ::
  "('p, 't) SaplingParser \<Rightarrow> 's host \<Rightarrow> operation \<Rightarrow> 'p provider \<Rightarrow> ('p, 't, 's) outcome" where
  "step P H (ResolveWebviewView w) this = resolveWebviewView w this"
| "step P H (Revive panel) this = revive panel this"
| "step P H StatusButtonClicked this = statusButtonClicked P H this"
| "step P H (ConfigurationChanged w) this = onDidChangeConfiguration H w this"
| "step P H (ActiveTextEditorChanged w e) this = onDidChangeActiveTextEditor w e this"
| "step P H (TextDocumentSaved w doc) this = onDidSaveTextDocument P w doc this"
| "step P H (MessageReceived w d) this = onDidReceiveMessage P H w d this"
| "step P H (VisibilityChanged w) this = onDidChangeVisibility this"
| "step P H (Disposed w) this = onDidDispose this"

subsection \<open>A small parser to run the handlers on\<close>

text \<open>
  Modelled from the spec: a stand-in for the absent \<^verbatim>\<open>SaplingParser\<close>, with the surface of
  the spec's section 6, used only to evaluate the handlers at concrete inputs. Its tree
  records the display name and the path of the bound file, how often it was re-derived, and
  the toggles it received. \<^verbatim>\<open>parse\<close> sets the field \<^verbatim>\<open>tree\<close> and returns it;
  \<^verbatim>\<open>updateTree\<close> re-derives the tree when the saved path is the bound file.
\<close>

record sample_tree =
  st_fileName :: string
  st_filePath :: string
  st_revision :: nat
  st_toggled :: "(string \<times> bool) list"

record sample_parser =
  entryFile :: string
  sp_tree :: "sample_tree option"

definition basename :: "string \<Rightarrow> string" where
  "basename path = rev (takeWhile (\<lambda>c. c \<noteq> CHR ''/'') (rev path))"

definition blank_tree :: sample_tree where
  "blank_tree = \<lparr>st_fileName = [], st_filePath = [], st_revision = 0, st_toggled = []\<rparr>"

definition sample_parse :: "sample_parser \<Rightarrow> sample_parser \<times> sample_tree" where
  "sample_parse p =
     (let t = \<lparr>st_fileName = basename (entryFile p), st_filePath = entryFile p,
                st_revision = 0, st_toggled = []\<rparr>
      in (p\<lparr>sp_tree := Some t\<rparr>, t))"

definition sample_updateTree :: "sample_parser \<Rightarrow> string \<Rightarrow> sample_parser \<times> sample_tree" where
  "sample_updateTree p path =
     (case sp_tree p of
        None \<Rightarrow> sample_parse p
      | Some t \<Rightarrow>
          (let t' = (if path = st_filePath t then t\<lparr>st_revision := Suc (st_revision t)\<rparr> else t)
           in (p\<lparr>sp_tree := Some t'\<rparr>, t')))"

definition sample_toggleNode :: "sample_parser \<Rightarrow> string \<Rightarrow> bool \<Rightarrow> sample_parser" where
  "sample_toggleNode p nid expanded =
     p\<lparr>sp_tree := map_option (\<lambda>t. t\<lparr>st_toggled := (nid, expanded) # st_toggled t\<rparr>) (sp_tree p)\<rparr>"

definition sample :: "(sample_parser, sample_tree) SaplingParser" where
  "sample =
     \<lparr>construct = (\<lambda>path. \<lparr>entryFile = path, sp_tree = None\<rparr>),
      parse = sample_parse,
      updateTree = sample_updateTree,
      getTree = (\<lambda>p. case sp_tree p of None \<Rightarrow> blank_tree | Some t \<Rightarrow> t),
      toggleNode = sample_toggleNode,
      tree = sp_tree,
      tree_fileName = st_fileName\<rparr>"

text \<open>A host whose active editor shows \<^verbatim>\<open>/src/App.tsx\<close>, and one with no editor open.\<close>

definition sample_host :: "string host" where
  "sample_host =
     \<lparr>sapling_view = ''tree'',
      activeTextEditor = Some \<lparr>document = \<lparr>fileName = ''/src/App.tsx''\<rparr>\<rparr>,
      openTextDocument = (\<lambda>path. Some \<lparr>fileName = path\<rparr>)\<rparr>"

definition untitled_host :: "string host" where
  "untitled_host =
     \<lparr>sapling_view = ''tree'',
      activeTextEditor = Some \<lparr>document = \<lparr>fileName = []\<rparr>\<rparr>,
      openTextDocument = (\<lambda>path. Some \<lparr>fileName = path\<rparr>)\<rparr>"

definition sample_panel :: webview_view where
  "sample_panel = \<lparr>view_id = 1, visible = True\<rparr>"

definition hidden_panel :: webview_view where
  "hidden_panel = \<lparr>view_id = 1, visible = False\<rparr>"

text \<open>The provider after \<^verbatim>\<open>resolveWebviewView\<close> only, and after an \<^verbatim>\<open>onFile\<close> message
  for \<^verbatim>\<open>/src/App.tsx\<close> as well.\<close>

definition sample_resolved :: "sample_parser provider" where
  "sample_resolved = \<lparr>view = Some 1, parser = None\<rparr>"

definition app_tree :: sample_tree where
  "app_tree = \<lparr>st_fileName = ''App.tsx'', st_filePath = ''/src/App.tsx'',
                st_revision = 0, st_toggled = []\<rparr>"

definition app_parser :: sample_parser where
  "app_parser = \<lparr>entryFile = ''/src/App.tsx'', sp_tree = Some app_tree\<rparr>"

definition sample_bound :: "sample_parser provider" where
  "sample_bound = \<lparr>view = Some 1, parser = Some app_parser\<rparr>"

lemmas sample_defs = sample_def sample_parse_def sample_updateTree_def sample_toggleNode_def
  basename_def blank_tree_def sample_host_def sample_panel_def sample_resolved_def
  app_tree_def app_parser_def sample_bound_def new_provider_def returns_def throws_def Let_def

section \<open>Properties\<close>

subsection \<open>The sample states are reachable\<close>

lemma sample_resolved_reached:
  "after (resolveWebviewView sample_panel new_provider
            :: (sample_parser, sample_tree, string) outcome) = sample_resolved"
  by (simp add: resolveWebviewView_def sample_defs)

lemma sample_bound_reached:
  "after (onDidReceiveMessage sample sample_host sample_panel (OnFile (Some ''/src/App.tsx''))
            sample_resolved :: (sample_parser, sample_tree, string) outcome) = sample_bound"
  by (simp add: sample_defs)

subsection \<open>Toggling a node\<close>

text \<open>
  Claim C1. For every \<^verbatim>\<open>onNodeToggle\<close> message received while no parser exists, the handler
  completes without fault, the parser and its tree are unchanged, and no outbound message is
  sent.

  The case \<^verbatim>\<open>onNodeToggle\<close> calls \<^verbatim>\<open>this.parser.toggleNode\<close> with no test of
  \<^verbatim>\<open>this.parser\<close>, unlike the cases \<^verbatim>\<open>onSaplingVisible\<close> and the save listener, which
  return early when there is no parser. At a provider whose view is resolved and that has no
  parser, the message leaves the state as it was and sends nothing, and the handler ends in
  a \<^verbatim>\<open>TypeError\<close>: the theorem evaluates the handler there.
\<close>

theorem toggle_before_open_raises:
  "onDidReceiveMessage sample sample_host sample_panel
       (OnNodeToggle (Some (''node-1'', True))) sample_resolved
     = \<lparr>after = sample_resolved, sent = [], raised = Some UndefinedParser\<rparr>"
  by (simp add: sample_resolved_def throws_def)

subsection \<open>Sending with no webview\<close>

text \<open>
  Claim C2. For every outbound send attempted while the UI surface does not exist (in
  particular \<^verbatim>\<open>statusButtonClicked\<close> called before \<^verbatim>\<open>resolveWebviewView\<close> has run, so that
  \<^verbatim>\<open>_view\<close> is undefined), the operation completes without error and has no observable
  effect other than the message being dropped.

  \<^verbatim>\<open>statusButtonClicked\<close> reads \<^verbatim>\<open>this._view.webview\<close> with no test of \<^verbatim>\<open>this._view\<close>,
  a field declared optional. At a provider just constructed and an active editor on
  \<^verbatim>\<open>/src/App.tsx\<close>, the method has replaced the parser when it ends in a \<^verbatim>\<open>TypeError\<close>:
  the theorem evaluates the method there.
\<close>

theorem status_button_without_view_raises:
  "raised (statusButtonClicked sample sample_host new_provider) = Some UndefinedView
   \<and> after (statusButtonClicked sample sample_host new_provider)
       = \<lparr>view = None, parser = Some app_parser\<rparr>"
  by (simp add: statusButtonClicked_def sample_defs)

subsection \<open>Saving a document\<close>

text \<open>
  Claim C3. For every document-save event: if no parser exists, nothing happens (no state
  change, no message). If a parser exists and the view is not visible, \<^verbatim>\<open>updateTree\<close> is
  called, so the parser holds the refreshed tree, and no \<^verbatim>\<open>parsed-data\<close> message is sent;
  if a parser exists and the view is visible, exactly one \<^verbatim>\<open>parsed-data\<close> message carrying
  the refreshed tree is sent.
\<close>

theorem save_visibility_gating:
  "(let r = onDidSaveTextDocument P w doc this :: ('p, 't, 's) outcome in
    (parser this = None \<longrightarrow> after r = this \<and> sent r = [] \<and> raised r = None)
    \<and> (parser this = Some p \<longrightarrow>
          after r = this\<lparr>parser := Some (fst (updateTree P p (fileName doc)))\<rparr>
        \<and> raised r = None
        \<and> (\<not> visible w \<longrightarrow> sent r = [])
        \<and> (visible w \<longrightarrow>
             sent r = [PostMessage (view_id w)
                        (ParsedData (snd (updateTree P p (fileName doc))))])))"
  by (auto simp: Let_def onDidSaveTextDocument_def returns_def split: prod.splits)

theorem save_visibility_gating_witness:
  "parser sample_resolved = None
   \<and> onDidSaveTextDocument sample sample_panel \<lparr>fileName = ''/src/App.tsx''\<rparr> sample_resolved
       = (\<lparr>after = sample_resolved, sent = [], raised = None\<rparr>
            :: (sample_parser, sample_tree, string) outcome)
   \<and> parser sample_bound = Some app_parser
   \<and> \<not> visible hidden_panel
   \<and> onDidSaveTextDocument sample hidden_panel \<lparr>fileName = ''/src/App.tsx''\<rparr> sample_bound
       = (\<lparr>after = sample_bound
                \<lparr>parser := Some (app_parser\<lparr>sp_tree := Some (app_tree\<lparr>st_revision := 1\<rparr>)\<rparr>)\<rparr>,
           sent = [], raised = None\<rparr> :: (sample_parser, sample_tree, string) outcome)
   \<and> visible sample_panel
   \<and> sent (onDidSaveTextDocument sample sample_panel \<lparr>fileName = ''/src/App.tsx''\<rparr> sample_bound
          :: (sample_parser, sample_tree, string) outcome)
       = [PostMessage 1 (ParsedData (app_tree\<lparr>st_revision := 1\<rparr>))]"
  using
    save_visibility_gating [of sample sample_panel "\<lparr>fileName = ''/src/App.tsx''\<rparr>"
      sample_resolved app_parser, where ?'s = string]
    save_visibility_gating [of sample hidden_panel "\<lparr>fileName = ''/src/App.tsx''\<rparr>"
      sample_bound app_parser, where ?'s = string]
    save_visibility_gating [of sample sample_panel "\<lparr>fileName = ''/src/App.tsx''\<rparr>"
      sample_bound app_parser, where ?'s = string]
  by (simp add: sample_defs hidden_panel_def onDidSaveTextDocument_def)

subsection \<open>The panel becomes visible\<close>

text \<open>
  Claim C4. For every \<^verbatim>\<open>onSaplingVisible\<close> message: if a parser exists with current tree
  \<open>T\<close> and bound file short name \<open>F\<close>, exactly two messages are sent, in order:
  \<^verbatim>\<open>parsed-data\<close> carrying \<open>T\<close> (what \<^verbatim>\<open>getTree\<close> returns; nothing is recomputed and the
  state is unchanged) and then \<^verbatim>\<open>saved-file\<close> carrying \<open>F\<close> (the \<^verbatim>\<open>fileName\<close> of the
  parser's \<^verbatim>\<open>tree\<close>); if no parser exists, the handler is a silent no-op sending no
  messages.
\<close>

theorem visible_catch_up:
  "(parser this = Some p \<and> tree P p = Some t \<longrightarrow>
      onDidReceiveMessage P H w OnSaplingVisible this =
        \<lparr>after = this,
         sent = [PostMessage (view_id w) (ParsedData (getTree P p)),
                 PostMessage (view_id w) (SavedFile (tree_fileName P t))],
         raised = None\<rparr>)
   \<and> (parser this = None \<longrightarrow>
      onDidReceiveMessage P H w OnSaplingVisible this =
        \<lparr>after = this, sent = [], raised = None\<rparr>)"
  by (simp add: returns_def)

theorem visible_catch_up_witness:
  "parser sample_bound = Some app_parser \<and> tree sample app_parser = Some app_tree
   \<and> onDidReceiveMessage sample sample_host sample_panel OnSaplingVisible sample_bound
       = \<lparr>after = sample_bound,
          sent = [PostMessage 1 (ParsedData app_tree), PostMessage 1 (SavedFile ''App.tsx'')],
          raised = None\<rparr>
   \<and> parser sample_resolved = None
   \<and> onDidReceiveMessage sample sample_host sample_panel OnSaplingVisible sample_resolved
       = \<lparr>after = sample_resolved, sent = [], raised = None\<rparr>"
  using
    visible_catch_up [of sample_bound app_parser sample app_tree sample_host sample_panel]
    visible_catch_up [of sample_resolved app_parser sample app_tree sample_host sample_panel]
  by (simp add: sample_defs)

subsection \<open>Opening a file\<close>

text \<open>
  Claim C5. For every sequence of two \<^verbatim>\<open>onFile\<close> messages with non-empty values \<open>a\<close> then
  \<open>b\<close>, where \<open>a \<noteq> b\<close>, after the second message the parser is a fresh parser bound to
  \<open>b\<close> and the tree is exactly the full parse of \<open>b\<close>, with no residue of the parser or the
  tree of \<open>a\<close>: the parser is the one constructed for \<open>b\<close> and parsed, the one message sent
  carries the tree that parse returned, and the parser is the same whatever provider the
  second message had found. The parser class, the host and the webview may differ between
  the two messages.
\<close>

theorem open_replaces:
  assumes "a \<noteq> []" and "b \<noteq> []" and "a \<noteq> b"
  shows "let r = onDidReceiveMessage P2 H2 w2 (OnFile (Some b))
                 (after (onDidReceiveMessage P1 H1 w1 (OnFile (Some a)) this
                    :: ('p, 't, 's) outcome)) :: ('p, 't, 's) outcome
     in parser (after r) = Some (fst (parse P2 (construct P2 b)))
       \<and> sent r = [PostMessage (view_id w2) (ParsedData (snd (parse P2 (construct P2 b))))]
       \<and> raised r = None
       \<and> view (after r) = view this
       \<and> parser (after r) =
           parser (after (onDidReceiveMessage P2 H2 w2 (OnFile (Some b)) other
                            :: ('p, 't, 's) outcome))"
  using assms(1,2) by (simp add: Let_def returns_def split: prod.splits)

theorem open_replaces_witness:
  "''/src/App.tsx'' \<noteq> [] \<and> ''/lib/Nav.tsx'' \<noteq> [] \<and> ''/src/App.tsx'' \<noteq> ''/lib/Nav.tsx''
   \<and> onDidReceiveMessage sample sample_host sample_panel (OnFile (Some ''/lib/Nav.tsx''))
        (after (onDidReceiveMessage sample sample_host sample_panel
                  (OnFile (Some ''/src/App.tsx'')) sample_resolved
                  :: (sample_parser, sample_tree, string) outcome))
       = \<lparr>after = \<lparr>view = Some 1,
                   parser = Some \<lparr>entryFile = ''/lib/Nav.tsx'',
                                   sp_tree = Some \<lparr>st_fileName = ''Nav.tsx'',
                                     st_filePath = ''/lib/Nav.tsx'', st_revision = 0,
                                     st_toggled = []\<rparr>\<rparr>\<rparr>,
          sent = [PostMessage 1 (ParsedData \<lparr>st_fileName = ''Nav.tsx'',
                    st_filePath = ''/lib/Nav.tsx'', st_revision = 0, st_toggled = []\<rparr>)],
          raised = None\<rparr>"
  using open_replaces [of "''/src/App.tsx''" "''/lib/Nav.tsx''" sample sample_host sample_panel
      sample sample_host sample_panel sample_resolved new_provider]
  by (simp add: sample_defs)

subsection \<open>Empty input\<close>

text \<open>
  Claim C6. For every prior state, an \<^verbatim>\<open>onFile\<close> message with an empty or absent value and
  an \<^verbatim>\<open>onViewFile\<close> message with an absent value each change no state and emit no outbound
  message (nor any other effect, nor an exception).
\<close>

theorem empty_input_ignored:
  "onDidReceiveMessage P H w (OnFile None) this = \<lparr>after = this, sent = [], raised = None\<rparr>
 \<and> onDidReceiveMessage P H w (OnFile (Some [])) this = \<lparr>after = this, sent = [], raised = None\<rparr>
 \<and> onDidReceiveMessage P H w (OnViewFile None) this = \<lparr>after = this, sent = [], raised = None\<rparr>"
  by (simp add: returns_def)

theorem empty_input_ignored_witness:
  "onDidReceiveMessage sample sample_host sample_panel (OnFile (Some [])) sample_bound
     = \<lparr>after = sample_bound, sent = [], raised = None\<rparr>
 \<and> onDidReceiveMessage sample sample_host sample_panel (OnViewFile None) sample_bound
     = \<lparr>after = sample_bound, sent = [], raised = None\<rparr>"
  using empty_input_ignored [of sample sample_host sample_panel sample_bound]
  by simp

subsection \<open>The active editor changes\<close>

text \<open>
  Claim C7. For every active-document-changed event: if no document is open (the event
  fires with no editor), the handler is a no-op sending nothing; otherwise exactly one
  \<^verbatim>\<open>current-tab\<close> message carrying the file path of the new document is sent, whether the
  view is visible or not.
\<close>

theorem active_editor_changed:
  "onDidChangeActiveTextEditor w None this
     = (\<lparr>after = this, sent = [], raised = None\<rparr> :: ('p, 't, 's) outcome)
 \<and> onDidChangeActiveTextEditor w (Some ed) this
     = (\<lparr>after = this,
         sent = [PostMessage (view_id w) (CurrentTab (fileName (document ed)))],
         raised = None\<rparr> :: ('p, 't, 's) outcome)"
  by (simp add: onDidChangeActiveTextEditor_def returns_def)

theorem active_editor_changed_witness:
  "\<not> visible hidden_panel
 \<and> onDidChangeActiveTextEditor hidden_panel
      (Some \<lparr>document = \<lparr>fileName = ''/lib/Nav.tsx''\<rparr>\<rparr>) sample_bound
     = (\<lparr>after = sample_bound, sent = [PostMessage 1 (CurrentTab ''/lib/Nav.tsx'')],
         raised = None\<rparr> :: (sample_parser, sample_tree, string) outcome)
 \<and> onDidChangeActiveTextEditor hidden_panel None sample_bound
     = (\<lparr>after = sample_bound, sent = [], raised = None\<rparr>
          :: (sample_parser, sample_tree, string) outcome)"
  using active_editor_changed [of hidden_panel sample_bound
      "\<lparr>document = \<lparr>fileName = ''/lib/Nav.tsx''\<rparr>\<rparr>",
      where ?'t = sample_tree and ?'s = string]
  by (simp add: hidden_panel_def)

subsection \<open>A parser, once set, stays set\<close>

lemma message_keeps_parser:
  assumes "parser this = Some p"
  shows "\<exists>p'. parser (after (onDidReceiveMessage P H w d this)) = Some p' \<and>
     (p' = p
      \<or> (\<exists>nid expanded. d = OnNodeToggle (Some (nid, expanded))
             \<and> p' = toggleNode P p nid expanded)
      \<or> (\<exists>path. d = OnFile (Some path) \<and> path \<noteq> []
             \<and> p' = fst (parse P (construct P path))))"
proof (cases d)
  case (OnFile v)
  then show ?thesis using assms
    by (cases v) (auto simp: returns_def split: prod.splits)
next
  case (OnViewFile v)
  then show ?thesis using assms
    by (cases v) (auto simp: returns_def throws_def split: option.splits)
next
  case (OnNodeToggle v)
  then show ?thesis using assms
    by (auto simp: returns_def throws_def split: option.splits)
qed (use assms in \<open>auto simp: returns_def throws_def Let_def split: option.splits\<close>)

lemma status_button_keeps_parser:
  assumes "parser this = Some p"
  shows "\<exists>p'. parser (after (statusButtonClicked P H this)) = Some p' \<and>
     (p' = p
      \<or> (\<exists>ed. activeTextEditor H = Some ed \<and> fileName (document ed) \<noteq> []
             \<and> p' = fst (parse P (construct P (fileName (document ed))))))"
  using assms
  by (auto simp: statusButtonClicked_def returns_def throws_def Let_def
           split: option.splits prod.splits)

text \<open>
  Claim C8. Once the provider has a parser it never becomes parser-less again: for every
  operation of the controller (every inbound message, every host event,
  \<^verbatim>\<open>statusButtonClicked\<close>, \<^verbatim>\<open>revive\<close>, \<^verbatim>\<open>resolveWebviewView\<close>), whether it returns or
  raises, if the parser field is defined before the operation it is defined after it. The
  parser afterwards is the one before, or that one mutated in place by \<^verbatim>\<open>updateTree\<close> (a
  save) or by \<^verbatim>\<open>toggleNode\<close> (a toggle), or a newly constructed and parsed one, and the last
  only after an \<^verbatim>\<open>onFile\<close> message with a non-empty value or \<^verbatim>\<open>statusButtonClicked\<close> with
  a non-empty file name.
\<close>

theorem bound_stays_bound:
  assumes "parser this = Some p"
  shows "\<exists>p'. parser (after (step P H operation this)) = Some p' \<and>
     (p' = p
      \<or> (\<exists>w doc. operation = TextDocumentSaved w doc
               \<and> p' = fst (updateTree P p (fileName doc)))
      \<or> (\<exists>w nid expanded. operation = MessageReceived w (OnNodeToggle (Some (nid, expanded)))
               \<and> p' = toggleNode P p nid expanded)
      \<or> (\<exists>w path. operation = MessageReceived w (OnFile (Some path)) \<and> path \<noteq> []
               \<and> p' = fst (parse P (construct P path)))
      \<or> (\<exists>ed. operation = StatusButtonClicked \<and> activeTextEditor H = Some ed
               \<and> fileName (document ed) \<noteq> []
               \<and> p' = fst (parse P (construct P (fileName (document ed))))))"
proof (cases operation)
  case StatusButtonClicked
  then show ?thesis using status_button_keeps_parser [OF assms, of P H] by auto
next
  case (TextDocumentSaved w doc)
  then show ?thesis using assms
    by (auto simp: onDidSaveTextDocument_def returns_def split: prod.splits)
next
  case (MessageReceived w d)
  then show ?thesis using message_keeps_parser [OF assms, of P H w d] by auto
qed (use assms in \<open>auto simp: resolveWebviewView_def revive_def onDidChangeConfiguration_def
       onDidChangeActiveTextEditor_def onDidChangeVisibility_def onDidDispose_def
       returns_def split: option.splits\<close>)

theorem bound_stays_bound_witness:
  "parser sample_bound = Some app_parser
   \<and> parser (after (step sample sample_host (MessageReceived sample_panel (OnNodeToggle None))
                      sample_bound)) = Some app_parser
   \<and> raised (step sample sample_host (MessageReceived sample_panel (OnNodeToggle None))
               sample_bound) = Some UndefinedValue"
proof -
  have bound: "parser sample_bound = Some app_parser"
    by (simp add: sample_bound_def)
  from bound_stays_bound [OF bound, of sample sample_host
      "MessageReceived sample_panel (OnNodeToggle None)"]
  show ?thesis
    by (simp add: sample_bound_def throws_def)
qed

subsection \<open>Handlers that leave the provider alone\<close>

text \<open>
  Claim C9. The handlers for \<^verbatim>\<open>onViewFile\<close>, \<^verbatim>\<open>onSettingsAcquire\<close>, \<^verbatim>\<open>onBoldCheck\<close>,
  configuration-changed and active-document-changed never modify the session: for each of
  these events the parser field (and with it the tree it holds) is the same before and after
  the handler runs, whatever the value of the message, and whether the handler returns or
  raises. The whole provider is unchanged.
\<close>

theorem session_frame:
  "after (onDidReceiveMessage P H w (OnViewFile v) this) = this
 \<and> after (onDidReceiveMessage P H w OnSettingsAcquire this) = this
 \<and> after (onDidReceiveMessage P H w OnBoldCheck this) = this
 \<and> after (onDidChangeConfiguration H w this :: ('p, 't, 's) outcome) = this
 \<and> after (onDidChangeActiveTextEditor w e this :: ('p, 't, 's) outcome) = this"
  by (cases v)
     (simp_all add: onDidChangeConfiguration_def onDidChangeActiveTextEditor_def
        returns_def throws_def split: option.splits)

theorem session_frame_witness:
  "parser (after (onDidReceiveMessage sample sample_host sample_panel
                    (OnViewFile (Some ''/lib/Nav.tsx'')) sample_bound)) = Some app_parser
 \<and> parser (after (onDidReceiveMessage sample sample_host sample_panel OnSettingsAcquire
                    sample_bound)) = Some app_parser
 \<and> parser (after (onDidReceiveMessage sample sample_host sample_panel OnBoldCheck
                    sample_bound)) = Some app_parser
 \<and> parser (after (onDidChangeConfiguration sample_host sample_panel sample_bound
                    :: (sample_parser, sample_tree, string) outcome)) = Some app_parser
 \<and> parser (after (onDidChangeActiveTextEditor sample_panel None sample_bound
                    :: (sample_parser, sample_tree, string) outcome)) = Some app_parser"
  using session_frame [of sample sample_host sample_panel "Some ''/lib/Nav.tsx''"
      sample_bound None, where ?'t = sample_tree]
  by (simp add: sample_bound_def)

subsection \<open>The status-bar button\<close>

text \<open>
  Claim C10, as stated: for every \<^verbatim>\<open>statusButtonClicked\<close> call where the file name of the
  active document is non-empty, the controller replaces the parser with a new one bound to
  that file, performs a full parse, and sends exactly two messages in order; when the file
  name is empty, no state changes and no message is sent.

  This fails when \<^verbatim>\<open>_view\<close> is undefined: at a provider just constructed and an active
  editor on \<^verbatim>\<open>/src/App.tsx\<close>, no message is sent.
\<close>

theorem status_button_without_view_sends_nothing:
  "activeTextEditor sample_host = Some \<lparr>document = \<lparr>fileName = ''/src/App.tsx''\<rparr>\<rparr>
   \<and> ''/src/App.tsx'' \<noteq> []
   \<and> view (new_provider :: sample_parser provider) = None
   \<and> sent (statusButtonClicked sample sample_host new_provider) = []"
  by (simp add: statusButtonClicked_def sample_defs)

text \<open>
  Claim C10, amended: for every \<^verbatim>\<open>statusButtonClicked\<close> call made while \<^verbatim>\<open>_view\<close> is
  defined and where the file name of the active document is non-empty, the controller
  replaces the parser with a new one bound to that file, performs a full parse, and, the
  parse having set the parser's tree, sends exactly two messages to that view in order:
  \<^verbatim>\<open>parsed-data\<close> carrying the tree that \<^verbatim>\<open>getTree\<close> returns, then \<^verbatim>\<open>saved-file\<close> carrying
  the file name of the tree; when the file name is empty, no state changes and no message is
  sent.
\<close>

theorem status_button_with_view:
  "(activeTextEditor H = Some ed \<and> fileName (document ed) \<noteq> [] \<and> view this = Some v
      \<and> tree P (fst (parse P (construct P (fileName (document ed))))) = Some t \<longrightarrow>
      statusButtonClicked P H this =
        \<lparr>after = this\<lparr>parser := Some (fst (parse P (construct P (fileName (document ed)))))\<rparr>,
         sent = [PostMessage v
                   (ParsedData (getTree P (fst (parse P (construct P (fileName (document ed))))))),
                 PostMessage v (SavedFile (tree_fileName P t))],
         raised = None\<rparr>)
   \<and> (activeTextEditor H = Some ed \<and> fileName (document ed) = [] \<longrightarrow>
      statusButtonClicked P H this = \<lparr>after = this, sent = [], raised = None\<rparr>)"
  by (auto simp: statusButtonClicked_def returns_def Let_def split: prod.splits)

theorem status_button_with_view_witness:
  "activeTextEditor sample_host = Some \<lparr>document = \<lparr>fileName = ''/src/App.tsx''\<rparr>\<rparr>
   \<and> view sample_resolved = Some 1
   \<and> tree sample (fst (parse sample (construct sample ''/src/App.tsx''))) = Some app_tree
   \<and> statusButtonClicked sample sample_host sample_resolved
       = \<lparr>after = sample_bound,
          sent = [PostMessage 1 (ParsedData app_tree), PostMessage 1 (SavedFile ''App.tsx'')],
          raised = None\<rparr>
   \<and> activeTextEditor untitled_host = Some \<lparr>document = \<lparr>fileName = []\<rparr>\<rparr>
   \<and> statusButtonClicked sample untitled_host sample_bound
       = \<lparr>after = sample_bound, sent = [], raised = None\<rparr>"
  using
    status_button_with_view [of sample_host "\<lparr>document = \<lparr>fileName = ''/src/App.tsx''\<rparr>\<rparr>"
      sample_resolved 1 sample app_tree]
    status_button_with_view [of untitled_host "\<lparr>document = \<lparr>fileName = []\<rparr>\<rparr>"
      sample_bound 1 sample app_tree]
  by (simp add: sample_defs untitled_host_def)

end
